theory Spec2Isabelle
  imports Complex_Main
begin

section \<open>Common ground: numbers, failures, outcomes\<close>

text \<open>
  The C++ sources compute with \<^verbatim>\<open>double\<close>. The embedding keeps the number type
  abstract: it is a type variable \<open>'d\<close> that carries only the symbols the code uses
  (\<open>0\<close>, \<open>1\<close>, \<open>+\<close>, \<open>-\<close>, \<open>*\<close>, \<open>/\<close>, unary minus, \<open>abs\<close>, \<open><\<close>, \<open>\<le>\<close>) through the
  syntactic type classes, none of which has an axiom. No law of arithmetic (associativity,
  \<open>x + 0 = x\<close>, ...) is available unless a theorem assumes it, so every theorem holds for
  IEEE doubles with their rounding as well as for exact numbers. \<open>0\<close> and \<open>1\<close> stand
  for the literals \<^verbatim>\<open>0.0\<close> and \<^verbatim>\<open>1.0\<close>. What the symbols do not cover is handed in as
  a record: \<^verbatim>\<open>std::sqrt\<close> and the other decimal literals of the source text.
\<close>

record 'd Math =
  fsqrt :: "'d \<Rightarrow> 'd"          \<comment> \<open>\<^verbatim>\<open>sqrt\<close> of \<^verbatim>\<open><cmath>\<close>\<close>
  dec :: "int \<Rightarrow> nat \<Rightarrow> 'd"     \<comment> \<open>\<open>dec m e\<close>: the double written \<open>m \<sqdot> 10\<^sup>-\<^sup>e\<close> in the source\<close>

text \<open>
  What stops a call. \<open>Runtime_error\<close> and \<open>Bad_lexical_cast\<close> are the C++ exceptions
  \<^verbatim>\<open>std::runtime_error\<close> (with its message) and \<^verbatim>\<open>boost::bad_lexical_cast\<close>.
  \<open>Null_dereference\<close> (a call through an empty \<^verbatim>\<open>shared_ptr\<close>) and \<open>Out_of_range\<close>
  (an index outside a \<^verbatim>\<open>std::vector\<close> or a raw array) are undefined behaviour in
  C++; the model stops at the offending access.
\<close>

datatype error = Runtime_error string | Bad_lexical_cast | Null_dereference | Out_of_range

text \<open>
  An outcome keeps the state in both branches: \<open>Returned s\<close> is a normal return with the
  object state \<open>s\<close>, \<open>Raised e s\<close> says the call was stopped by \<open>e\<close> and left the
  mutable state as \<open>s\<close>. Mutations done before the stop are therefore visible.
\<close>

datatype 's outcome = Returned 's | Raised error 's

section \<open>\<^verbatim>\<open>pair_soft_potential.hpp\<close>\<close>

record 'd SoftParameters =
  k :: 'd
  a :: 'd

text \<open>
  The members of \<^verbatim>\<open>PairSoftPotential\<close> that \<^verbatim>\<open>set_pair_parameters\<close> touches.
  \<open>m_pair_params\<close> is the \<^verbatim>\<open>SoftParameters**\<close> table (one row per particle type);
  \<open>m_has_pair_params\<close> is inherited from \<^verbatim>\<open>PairPotential\<close>.
\<close>

record 'd PairSoftPotential =
  m_k :: 'd
  m_a :: 'd
  m_pair_params :: "'d SoftParameters list list"
  m_has_pair_params :: bool

text \<open>
  \<^verbatim>\<open>boost::lexical_cast\<close> is a library function: it is a parameter of the model.
  \<open>None\<close> stands for \<^verbatim>\<open>bad_lexical_cast\<close>.
\<close>

record 'd Lexical =
  lexical_cast_int :: "string \<Rightarrow> int option"
  lexical_cast_double :: "string \<Rightarrow> 'd option"

text \<open>\<^verbatim>\<open>pairs_type\<close> is \<^verbatim>\<open>std::map<string,string>\<close>.\<close>

type_synonym pairs_type = "string \<rightharpoonup> string"

text \<open>
  \<^verbatim>\<open>m_pair_params[i][j].k = v\<close> on the raw array: outside the table the write is
  undefined behaviour (\<open>None\<close>).
\<close>

definition write_k ::
  "'d SoftParameters list list \<Rightarrow> int \<Rightarrow> int \<Rightarrow> 'd \<Rightarrow> 'd SoftParameters list list option" where
  "write_k tbl i j v =
     (if 0 \<le> i \<and> i < int (length tbl) \<and> 0 \<le> j \<and> j < int (length (tbl ! nat i))
      then Some (tbl[nat i := (tbl ! nat i)[nat j := (tbl ! nat i ! nat j)\<lparr>k := v\<rparr>]])
      else None)"

text \<open>
  The local \<^verbatim>\<open>param["k"]\<close> and \<^verbatim>\<open>param["a"]\<close> (lines 120 to 139): the key's value
  through \<^verbatim>\<open>lexical_cast<double>\<close> when the key is present, the default otherwise.
\<close>

definition strength_value :: "'d Lexical \<Rightarrow> pairs_type \<Rightarrow> 'd PairSoftPotential \<Rightarrow> 'd option" where
  "strength_value L pair_param P =
     (case pair_param ''k'' of Some s \<Rightarrow> lexical_cast_double L s | None \<Rightarrow> Some (m_k P))"

definition range_value :: "'d Lexical \<Rightarrow> pairs_type \<Rightarrow> 'd PairSoftPotential \<Rightarrow> 'd option" where
  "range_value L pair_param P =
     (case pair_param ''a'' of Some s \<Rightarrow> lexical_cast_double L s | None \<Rightarrow> Some (m_a P))"

text \<open>Lines 142 to 149: the four assignments, in the order of the source, and the flag.\<close>

definition assign_pair_params ::
  "int \<Rightarrow> int \<Rightarrow> 'd \<Rightarrow> 'd \<Rightarrow> 'd PairSoftPotential \<Rightarrow> 'd PairSoftPotential outcome" where
  "assign_pair_params type_1 type_2 param_k param_a P =
     (case write_k (m_pair_params P) (type_1 - 1) (type_2 - 1) param_k of
        None \<Rightarrow> Raised Out_of_range P
      | Some t1 \<Rightarrow>
     (case (if type_1 \<noteq> type_2 then write_k t1 (type_2 - 1) (type_1 - 1) param_k else Some t1) of
        None \<Rightarrow> Raised Out_of_range (P\<lparr>m_pair_params := t1\<rparr>)
      | Some t2 \<Rightarrow>
     (case write_k t2 (type_1 - 1) (type_2 - 1) param_a of
        None \<Rightarrow> Raised Out_of_range (P\<lparr>m_pair_params := t2\<rparr>)
      | Some t3 \<Rightarrow>
     (case (if type_1 \<noteq> type_2 then write_k t3 (type_2 - 1) (type_1 - 1) param_a else Some t3) of
        None \<Rightarrow> Raised Out_of_range (P\<lparr>m_pair_params := t3\<rparr>)
      | Some t4 \<Rightarrow> Returned (P\<lparr>m_pair_params := t4, m_has_pair_params := True\<rparr>)))))"

text \<open>
  \<^verbatim>\<open>PairSoftPotential::set_pair_parameters\<close>. The messages sent to the messenger are
  log lines and are left out; the exceptions and their order are the source's.
\<close>

definition set_pair_parameters ::
  "'d Lexical \<Rightarrow> pairs_type \<Rightarrow> 'd PairSoftPotential \<Rightarrow> 'd PairSoftPotential outcome" where
  "set_pair_parameters L pair_param P =
     (case pair_param ''type_1'' of
        None \<Rightarrow> Raised (Runtime_error ''Missing key for pair potential parameters.'') P
      | Some s1 \<Rightarrow>
     (case pair_param ''type_2'' of
        None \<Rightarrow> Raised (Runtime_error ''Missing key for pair potential parameters.'') P
      | Some s2 \<Rightarrow>
     (case lexical_cast_int L s1 of
        None \<Rightarrow> Raised Bad_lexical_cast P
      | Some type_1 \<Rightarrow>
     (case lexical_cast_int L s2 of
        None \<Rightarrow> Raised Bad_lexical_cast P
      | Some type_2 \<Rightarrow>
     (case strength_value L pair_param P of
        None \<Rightarrow> Raised Bad_lexical_cast P
      | Some param_k \<Rightarrow>
     (case range_value L pair_param P of
        None \<Rightarrow> Raised Bad_lexical_cast P
      | Some param_a \<Rightarrow> assign_pair_params type_1 type_2 param_k param_a P))))))"

text \<open>A cast for the examples: it reads the two type names \<open>1\<close> and \<open>2\<close> and one range.\<close>

definition example_cast :: "int Lexical" where
  "example_cast =
     \<lparr>lexical_cast_int = (\<lambda>s. if s = ''1'' then Some 1 else if s = ''2'' then Some 2 else None),
      lexical_cast_double = (\<lambda>s. if s = ''7'' then Some 7 else None)\<rparr>"

definition example_potential :: "int PairSoftPotential" where
  "example_potential =
     \<lparr>m_k = 1, m_a = 2,
      m_pair_params = [[\<lparr>k = 1, a = 5\<rparr>, \<lparr>k = 1, a = 5\<rparr>], [\<lparr>k = 1, a = 5\<rparr>, \<lparr>k = 1, a = 5\<rparr>]],
      m_has_pair_params = False\<rparr>"

section \<open>\<^verbatim>\<open>IntegratorMyPeriodicBrownian::integrate\<close> (source file \<^verbatim>\<open>src/unnamed/part_000\<close>)\<close>

subsection \<open>The data \<^verbatim>\<open>integrate()\<close> works on\<close>

text \<open>
  The fields of \<^verbatim>\<open>Particle\<close> that \<^verbatim>\<open>integrate()\<close> reads or writes: position, director,
  velocity, force, angular velocity and age.
\<close>

record 'd Particle =
  x :: 'd
  y :: 'd
  z :: 'd
  nx :: 'd
  ny :: 'd
  nz :: 'd
  vx :: 'd
  vy :: 'd
  vz :: 'd
  fx :: 'd
  fy :: 'd
  fz :: 'd
  omega :: 'd
  age :: 'd

text \<open>
  \<^verbatim>\<open>m_system->get_particle(pi)\<close> hands out a reference to the particle with id \<open>pi\<close>.
  The class \<^verbatim>\<open>System\<close> is not among the sources; its particle container is modelled as
  a function from ids to particles, and a write through the reference as a function update.
\<close>

type_synonym 'd store = "int \<Rightarrow> 'd Particle"

text \<open>
  The state of the \<^verbatim>\<open>System\<close> object that the call sees: the particles, the particle ids
  of the integrator's group in the order of \<^verbatim>\<open>get_particles()\<close> (\<^verbatim>\<open>get_size()\<close> is
  its length), the run step and the mesh. The methods of \<^verbatim>\<open>System\<close> that are called but
  not defined in the sources are parameters.
\<close>

record ('d, 'm) System =
  m_particles :: "'d store"
  m_group :: "int list"
  m_run_step :: int
  m_mesh :: 'm

record ('d, 'm) SystemOps =
  reset_forces :: "'d store \<Rightarrow> 'd store"
  reset_torques :: "'d store \<Rightarrow> 'd store"
  update_mesh :: "'d store \<Rightarrow> 'm \<Rightarrow> 'm"

text \<open>
  The constraint operator behind \<^verbatim>\<open>m_constrainer\<close>: three methods that change the
  particle they are given and one that returns a number.
\<close>

record 'd Constrainer =
  enforce :: "'d Particle \<Rightarrow> 'd Particle"
  project_torque :: "'d Particle \<Rightarrow> 'd"
  rotate_director :: "'d Particle \<Rightarrow> 'd \<Rightarrow> 'd Particle"
  rotate_velocity :: "'d Particle \<Rightarrow> 'd \<Rightarrow> 'd Particle"

text \<open>
  The random number generator behind \<^verbatim>\<open>m_rng\<close>: each draw takes the generator's state
  \<open>'g\<close> and returns the sample with the next state.
\<close>

record ('d, 'g) RNG =
  drnd :: "'g \<Rightarrow> 'd \<times> 'g"
  gauss_rng :: "'d \<Rightarrow> 'g \<Rightarrow> 'd \<times> 'g"

text \<open>
  The members of the integrator. The three collaborators held by pointer may be unset
  (\<open>None\<close>); the code tests \<open>m_potential\<close> and \<open>m_align\<close> and calls through
  \<open>m_constrainer\<close> without a test. \<open>m_temp\<close> is \<^verbatim>\<open>m_temp->get_val\<close>.
\<close>

record ('d, 'g) Integrator =
  m_dt :: 'd
  m_v0 :: 'd
  m_mu :: 'd
  m_mur :: 'd
  m_stoch_coeff :: 'd
  m_tau :: 'd
  m_nematic :: bool
  m_velocity :: bool
  m_temp :: "int \<Rightarrow> 'd"
  m_potential :: "('d \<Rightarrow> 'd store \<Rightarrow> 'd store) option"
  m_align :: "('d store \<Rightarrow> 'd store) option"
  m_constrainer :: "'d Constrainer option"
  m_rng :: "('d, 'g) RNG"

subsection \<open>Lines 44 to 77: set-up, director flips, forces and torques\<close>

text \<open>\<^verbatim>\<open>double B = sqrt(2.0*m_mu*T)\<close>.\<close>

definition noise_amplitude :: "'d::times Math \<Rightarrow> 'd \<Rightarrow> 'd \<Rightarrow> 'd" where
  "noise_amplitude M mu T = fsqrt M (dec M 2 0 * mu * T)"

text \<open>Lines 64 to 68: the director is negated, and the velocity with it when it is tracked.\<close>

definition flip_director :: "bool \<Rightarrow> 'd::uminus Particle \<Rightarrow> 'd Particle" where
  "flip_director velocity p =
     (let p1 = p\<lparr>nx := - nx p, ny := - ny p, nz := - nz p\<rparr>
      in if velocity then p1\<lparr>vx := - vx p1, vy := - vy p1, vz := - vz p1\<rparr> else p1)"

text \<open>
  Lines 58 to 70: the loop \<^verbatim>\<open>for (int i = 0; i < N; i++)\<close> over \<^verbatim>\<open>particles[i]\<close>, as a
  recursion over the group's list of ids (\<open>pid\<close> is the source's \<^verbatim>\<open>pi\<close>).
\<close>

fun flip_loop ::
  "('d::{uminus,ord}, 'g) Integrator \<Rightarrow> int list \<Rightarrow> 'd store \<times> 'g \<Rightarrow> 'd store \<times> 'g" where
  "flip_loop I [] (st, g) = (st, g)"
| "flip_loop I (pid # rest) (st, g) =
     (let (u, g') = drnd (m_rng I) g
      in flip_loop I rest
           (if u < m_tau I then st(pid := flip_director (m_velocity I) (st pid)) else st, g'))"

text \<open>Lines 56 to 70: \<^verbatim>\<open>if (m_nematic)\<close> and its loop.\<close>

definition nematic_flips ::
  "('d::{uminus,ord}, 'g) Integrator \<Rightarrow> int list \<Rightarrow> 'd store \<times> 'g \<Rightarrow> 'd store \<times> 'g" where
  "nematic_flips I particles s = (if m_nematic I then flip_loop I particles s else s)"

text \<open>
  Lines 52 to 77: forces and torques are reset, directors are flipped in nematic mode, and
  the potential and the aligner, when set, compute forces and torques.
\<close>

definition prepare ::
  "('d, 'm) SystemOps \<Rightarrow> ('d::{uminus,ord}, 'g) Integrator \<Rightarrow> int list \<Rightarrow> 'd store \<times> 'g
     \<Rightarrow> 'd store \<times> 'g" where
  "prepare S I particles s =
     (let (st, g) = s;
          st0 = reset_torques S (reset_forces S st);
          (st1, g1) = nematic_flips I particles (st0, g);
          st2 = (case m_potential I of Some compute \<Rightarrow> compute (m_dt I) st1 | None \<Rightarrow> st1);
          st3 = (case m_align I of Some compute \<Rightarrow> compute st2 | None \<Rightarrow> st2)
      in (st3, g1))"

subsection \<open>Lines 79 to 121: the loop over the particles\<close>

text \<open>Lines 84 to 94: the deterministic part.\<close>

definition drift_update :: "('d::{plus,times}, 'g) Integrator \<Rightarrow> 'd Particle \<Rightarrow> 'd Particle" where
  "drift_update I p =
     (let fd_x = m_v0 I * nx p + m_mu I * fx p;
          fd_y = m_v0 I * ny p + m_mu I * fy p;
          fd_z = m_v0 I * nz p + m_mu I * fz p;
          p1 = p\<lparr>vx := fd_x, vy := fd_y, vz := fd_z\<rparr>
      in p1\<lparr>x := x p1 + m_dt I * fd_x, y := y p1 + m_dt I * fd_y, z := z p1 + m_dt I * fd_z\<rparr>)"

text \<open>Lines 98 to 106: the body of \<^verbatim>\<open>if (T > 0.0)\<close>.\<close>

definition thermal_kick ::
  "('d::{one,plus,times}, 'g) RNG \<Rightarrow> 'd \<Rightarrow> 'd \<Rightarrow> 'd Particle \<times> 'g \<Rightarrow> 'd Particle \<times> 'g" where
  "thermal_kick R B sqrt_dt s =
     (let (p, g) = s;
          (n1, g1) = gauss_rng R 1 g;
          fr_x = B * n1;
          (n2, g2) = gauss_rng R 1 g1;
          fr_y = B * n2;
          (n3, g3) = gauss_rng R 1 g2;
          fr_z = B * n3;
          p1 = p\<lparr>vx := vx p + fr_x, vy := vy p + fr_y, vz := vz p + fr_z\<rparr>
      in (p1\<lparr>x := x p1 + sqrt_dt * fr_x, y := y p1 + sqrt_dt * fr_y, z := z p1 + sqrt_dt * fr_z\<rparr>,
          g3))"

text \<open>Lines 84 to 107: the translation of one particle.\<close>

definition translate ::
  "('d::{zero,one,plus,times,ord}, 'g) Integrator \<Rightarrow> 'd \<Rightarrow> 'd \<Rightarrow> 'd \<Rightarrow> 'd Particle \<times> 'g
     \<Rightarrow> 'd Particle \<times> 'g" where
  "translate I T B sqrt_dt s =
     (let (p, g) = s;
          p1 = drift_update I p
      in if 0 < T then thermal_kick (m_rng I) B sqrt_dt (p1, g) else (p1, g))"

text \<open>Lines 109 to 120: projection, angular velocity, rotation and age.\<close>

definition orient ::
  "('d::{one,plus,times}, 'g) Integrator \<Rightarrow> 'd Constrainer \<Rightarrow> 'd Particle \<times> 'g
     \<Rightarrow> 'd Particle \<times> 'g" where
  "orient I C s =
     (let (p, g) = s;
          p1 = enforce C p;
          p2 = p1\<lparr>omega := m_mur I * project_torque C p1\<rparr>;
          (n, g') = gauss_rng (m_rng I) 1 g;
          dtheta = m_dt I * omega p2 + m_stoch_coeff I * n;
          p3 = rotate_director C p2 dtheta;
          p4 = (if m_velocity I then rotate_velocity C p3 dtheta else p3)
      in (p4\<lparr>age := age p4 + m_dt I\<rparr>, g'))"

text \<open>
  The loop of lines 79 to 121. With \<open>m_constrainer\<close> unset the call
  \<^verbatim>\<open>m_constrainer->enforce(p)\<close> of line 109 stops the first iteration, after the writes of
  lines 88 to 106 to that particle.
\<close>

fun particle_loop ::
  "('d::{zero,one,plus,times,ord}, 'g) Integrator \<Rightarrow> 'd \<Rightarrow> 'd \<Rightarrow> 'd \<Rightarrow> int list
     \<Rightarrow> 'd store \<times> 'g \<Rightarrow> ('d store \<times> 'g) outcome" where
  "particle_loop I T B sqrt_dt [] (st, g) = Returned (st, g)"
| "particle_loop I T B sqrt_dt (pid # rest) (st, g) =
     (let (p1, g1) = translate I T B sqrt_dt (st pid, g)
      in case m_constrainer I of
           None \<Rightarrow> Raised Null_dereference (st(pid := p1), g1)
         | Some C \<Rightarrow>
             (let (p2, g2) = orient I C (p1, g1)
              in particle_loop I T B sqrt_dt rest (st(pid := p2), g2)))"

text \<open>Lines 44 to 121: everything up to the end of the loop over the particles.\<close>

definition integrate_particles ::
  "'d Math \<Rightarrow> ('d, 'm) SystemOps \<Rightarrow> ('d::{zero,one,plus,times,uminus,ord}, 'g) Integrator
     \<Rightarrow> ('d, 'm) System \<times> 'g \<Rightarrow> ('d store \<times> 'g) outcome" where
  "integrate_particles M S I s =
     (let (sys, g) = s;
          particles = m_group sys;
          T = m_temp I (m_run_step sys);
          B = noise_amplitude M (m_mu I) T;
          sqrt_dt = fsqrt M (m_dt I)
      in particle_loop I T B sqrt_dt particles (prepare S I particles (m_particles sys, g)))"

subsection \<open>Lines 122 to 289: the periodic patch\<close>

text \<open>
  \<^verbatim>\<open>particles[i]\<close> on the \<^verbatim>\<open>vector<int>\<close> of the group: \<^verbatim>\<open>operator[]\<close> does not check
  its index, and outside the vector the read is undefined behaviour (\<open>None\<close>).
\<close>

definition group_at :: "int list \<Rightarrow> int \<Rightarrow> int option" where
  "group_at particles i =
     (if 0 \<le> i \<and> i < int (length particles) then Some (particles ! nat i) else None)"

text \<open>
  The constants of lines 123 to 141. The right-hand sides of lines 137 to 140 are computed
  in \<^verbatim>\<open>double\<close> from \<open>30.0\<close>, \<open>2.0\<close> and \<open>100.0\<close> and cut back to \<^verbatim>\<open>int\<close>; every
  value on the way is a small whole number, so the integer computation below gives the
  same indices.
\<close>

definition periodic_update_flag :: bool where
  "periodic_update_flag = True"

definition update_boundary :: bool where
  "update_boundary = False"

definition length_period :: "'d Math \<Rightarrow> 'd" where
  "length_period M = dec M 30 0"

definition internal_index_start :: int where
  "internal_index_start = 0"

definition internal_index_end :: int where
  "internal_index_end = 2904 div 3 - 1"

definition up_internal_index_start :: int where
  "up_internal_index_start = internal_index_end + 1"

definition up_internal_index_end :: int where
  "up_internal_index_end = up_internal_index_start + (internal_index_end - internal_index_start)"

definition down_internal_index_start :: int where
  "down_internal_index_start = up_internal_index_end + 1"

definition down_internal_index_end :: int where
  "down_internal_index_end = down_internal_index_start + (internal_index_end - internal_index_start)"

definition right_boundary_start_0 :: int where
  "right_boundary_start_0 = internal_index_end + 30 * 2"

definition right_boundary_end_0 :: int where
  "right_boundary_end_0 = internal_index_end + 2 * 30 * 2"

definition left_boundary_start_0 :: int where
  "left_boundary_start_0 = internal_index_end + 4 * 30 * 2 + 2 * 100 * 2"

definition left_boundary_end_0 :: int where
  "left_boundary_end_0 = internal_index_end + 5 * 30 * 2 + 2 * 100 * 2"

definition boundary_periodic_update_region :: int where
  "boundary_periodic_update_region = 30"

text \<open>
  The four scans of lines 144 to 192:
  \<^verbatim>\<open>for (i = b - region; i < b + region; i++) { if (test(particle i)) { b = i; break; } }\<close>.
  The scan runs over the indices it is given, returns the first index whose particle
  passes the test, and the old value \<open>b\<close> when none does.
\<close>

fun boundary_scan ::
  "('d Particle \<Rightarrow> bool) \<Rightarrow> int list \<Rightarrow> 'd store \<Rightarrow> int list \<Rightarrow> int \<Rightarrow> error + int" where
  "boundary_scan test particles st [] b = Inr b"
| "boundary_scan test particles st (i # rest) b =
     (case group_at particles i of
        None \<Rightarrow> Inl Out_of_range
      | Some pid \<Rightarrow>
          if test (st pid) then Inr i else boundary_scan test particles st rest b)"

definition scan_window :: "int \<Rightarrow> int list" where
  "scan_window b = [b - boundary_periodic_update_region .. b + boundary_periodic_update_region - 1]"

text \<open>
  Lines 166 to 169 and 193 to 196: \<^verbatim>\<open>abs(p.y - q.y) < 0.001\<close> for the particles at two
  group indices. (\<^verbatim>\<open>abs\<close> is taken as the absolute value of a \<^verbatim>\<open>double\<close>.)
\<close>

definition close_in_y ::
  "'d::{minus,abs,ord} Math \<Rightarrow> int list \<Rightarrow> 'd store \<Rightarrow> int \<Rightarrow> int \<Rightarrow> error + bool" where
  "close_in_y M particles st i j =
     (case group_at particles i of
        None \<Rightarrow> Inl Out_of_range
      | Some pid_i \<Rightarrow>
     (case group_at particles j of
        None \<Rightarrow> Inl Out_of_range
      | Some pid_j \<Rightarrow> Inr (\<bar>y (st pid_i) - y (st pid_j)\<bar> < dec M 1 3)))"

text \<open>
  Lines 143 to 196: the final values of \<open>right_boundary_start\<close>, \<open>right_boundary_end\<close>,
  \<open>left_boundary_start\<close> and \<open>left_boundary_end\<close>. Nothing is written here.
\<close>

definition locate_boundaries ::
  "'d::{minus,uminus,inverse,abs,ord} Math \<Rightarrow> int list \<Rightarrow> 'd store
     \<Rightarrow> error + (int \<times> int \<times> int \<times> int)" where
  "locate_boundaries M particles st =
     (case boundary_scan (\<lambda>p. y p \<le> length_period M / dec M 2 0) particles st
             (scan_window right_boundary_start_0) right_boundary_start_0 of
        Inl e \<Rightarrow> Inl e
      | Inr right_boundary_start \<Rightarrow>
     (case boundary_scan (\<lambda>p. y p \<le> (- length_period M) / dec M 2 0) particles st
             (scan_window right_boundary_end_0) right_boundary_end_0 of
        Inl e \<Rightarrow> Inl e
      | Inr right_boundary_end \<Rightarrow>
     (case close_in_y M particles st right_boundary_start right_boundary_end of
        Inl e \<Rightarrow> Inl e
      | Inr close_r \<Rightarrow>
     (case boundary_scan (\<lambda>p. y p \<ge> (- length_period M) / dec M 2 0) particles st
             (scan_window left_boundary_start_0) left_boundary_start_0 of
        Inl e \<Rightarrow> Inl e
      | Inr left_boundary_start \<Rightarrow>
     (case boundary_scan (\<lambda>p. y p \<ge> length_period M / dec M 2 0) particles st
             (scan_window left_boundary_end_0) left_boundary_end_0 of
        Inl e \<Rightarrow> Inl e
      | Inr left_boundary_end \<Rightarrow>
     (case close_in_y M particles st left_boundary_end left_boundary_start of
        Inl e \<Rightarrow> Inl e
      | Inr close_l \<Rightarrow>
          Inr (right_boundary_start,
               (if close_r then right_boundary_end - 1 else right_boundary_end),
               left_boundary_start,
               (if close_l then left_boundary_end - 1 else left_boundary_end))))))))"

text \<open>
  The copy loops of lines 210 to 286 have one shape: for each index \<open>i\<close>, the particle at
  \<^verbatim>\<open>particles[i]\<close> gets the position of the particle at \<^verbatim>\<open>particles[i - offset]\<close>, with
  the \<open>y\<close> coordinate passed through \<open>shift\<close>. The other fields are kept.
\<close>

fun copy_loop ::
  "int list \<Rightarrow> int \<Rightarrow> ('d \<Rightarrow> 'd) \<Rightarrow> int list \<Rightarrow> 'd store \<Rightarrow> 'd store outcome" where
  "copy_loop particles offset shift [] st = Returned st"
| "copy_loop particles offset shift (i # rest) st =
     (case group_at particles (i - offset) of
        None \<Rightarrow> Raised Out_of_range st
      | Some pi0 \<Rightarrow>
     (case group_at particles i of
        None \<Rightarrow> Raised Out_of_range st
      | Some pid \<Rightarrow>
          (let p0 = st pi0;
               p = st pid
           in copy_loop particles offset shift rest
                (st(pid := p\<lparr>x := x p0, y := shift (y p0), z := z p0\<rparr>)))))"

text \<open>Lines 210 to 234: the two loops that are run.\<close>

definition periodic_copy :: "'d::{plus,minus} Math \<Rightarrow> int list \<Rightarrow> 'd store \<Rightarrow> 'd store outcome" where
  "periodic_copy M particles st =
     (case copy_loop particles (up_internal_index_start - internal_index_start)
             (\<lambda>v. v + length_period M) [up_internal_index_start .. up_internal_index_end] st of
        Raised e st1 \<Rightarrow> Raised e st1
      | Returned st1 \<Rightarrow>
          copy_loop particles (down_internal_index_start - internal_index_start)
            (\<lambda>v. v - length_period M) [down_internal_index_start .. down_internal_index_end] st1)"

text \<open>Lines 199 to 207 and 237 to 286: the four loops under \<^verbatim>\<open>if (update_boundary)\<close>.\<close>

definition boundary_copy ::
  "'d::{plus,minus} Math \<Rightarrow> int list \<Rightarrow> int \<times> int \<times> int \<times> int \<Rightarrow> 'd store \<Rightarrow> 'd store outcome" where
  "boundary_copy M particles b st =
     (let (right_boundary_start, right_boundary_end, left_boundary_start, left_boundary_end) = b;
          right_up_boundary_end = right_boundary_start + 1;
          right_up_boundary_start = right_up_boundary_end - boundary_periodic_update_region + 1;
          right_down_boundary_start = right_boundary_end + 1;
          right_down_boundary_end = right_down_boundary_start + boundary_periodic_update_region - 1;
          left_up_boundary_start = left_boundary_end + 1;
          left_up_boundary_end = left_up_boundary_start + boundary_periodic_update_region - 1;
          left_down_boundary_end = left_boundary_start - 1;
          left_down_boundary_start = left_down_boundary_end - boundary_periodic_update_region + 1
      in
     (case copy_loop particles (- (right_boundary_end - right_boundary_start + 1))
             (\<lambda>v. v + length_period M) [right_up_boundary_start .. right_up_boundary_end] st of
        Raised e st1 \<Rightarrow> Raised e st1
      | Returned st1 \<Rightarrow>
     (case copy_loop particles (right_boundary_end - right_boundary_start + 1)
             (\<lambda>v. v - length_period M) [right_down_boundary_start .. right_down_boundary_end] st1 of
        Raised e st2 \<Rightarrow> Raised e st2
      | Returned st2 \<Rightarrow>
     (case copy_loop particles (left_boundary_end - left_boundary_start + 1)
             (\<lambda>v. v + length_period M) [left_up_boundary_start .. left_up_boundary_end] st2 of
        Raised e st3 \<Rightarrow> Raised e st3
      | Returned st3 \<Rightarrow>
          copy_loop particles (- (left_boundary_end - left_boundary_start + 1))
            (\<lambda>v. v - length_period M) [left_down_boundary_start .. left_down_boundary_end] st3))))"

text \<open>Lines 123 to 288.\<close>

definition periodic_update ::
  "'d::{plus,minus,uminus,inverse,abs,ord} Math \<Rightarrow> int list \<Rightarrow> 'd store \<Rightarrow> 'd store outcome" where
  "periodic_update M particles st =
     (if periodic_update_flag then
        (case locate_boundaries M particles st of
           Inl e \<Rightarrow> Raised e st
         | Inr b \<Rightarrow>
        (case periodic_copy M particles st of
           Raised e st1 \<Rightarrow> Raised e st1
         | Returned st1 \<Rightarrow>
             if update_boundary then boundary_copy M particles b st1 else Returned st1))
      else Returned st)"

subsection \<open>\<^verbatim>\<open>IntegratorMyPeriodicBrownian::integrate\<close>\<close>

text \<open>
  The whole call: the loop over the particles, the periodic patch, and
  \<^verbatim>\<open>m_system->update_mesh()\<close>. When the call is stopped, the system is left with the
  particles as they were at that point and the mesh is not updated.
\<close>

definition integrate ::
  "'d Math \<Rightarrow> ('d, 'm) SystemOps
     \<Rightarrow> ('d::{zero,one,plus,minus,times,inverse,uminus,abs,ord}, 'g) Integrator
     \<Rightarrow> ('d, 'm) System \<times> 'g \<Rightarrow> (('d, 'm) System \<times> 'g) outcome" where
  "integrate M S I s =
     (case integrate_particles M S I s of
        Raised e (st, g) \<Rightarrow> Raised e ((fst s)\<lparr>m_particles := st\<rparr>, g)
      | Returned (st, g) \<Rightarrow>
     (case periodic_update M (m_group (fst s)) st of
        Raised e st1 \<Rightarrow> Raised e ((fst s)\<lparr>m_particles := st1\<rparr>, g)
      | Returned st1 \<Rightarrow>
          Returned ((fst s)\<lparr>m_particles := st1, m_mesh := update_mesh S st1 (m_mesh (fst s))\<rparr>, g)))"

subsection \<open>Two readings of a run\<close>

text \<open>The state of the generator after one Gaussian draw \<^verbatim>\<open>gauss_rng(1.0)\<close>.\<close>

definition next_gauss :: "('d::one, 'g) RNG \<Rightarrow> 'g \<Rightarrow> 'g" where
  "next_gauss R h = snd (gauss_rng R 1 h)"


subsection \<open>What the collaborators are expected to leave alone\<close>



subsection \<open>A small configuration for the examples\<close>

text \<open>
  Real numbers, a generator whose state counts the draws (the \<open>n\<close>-th uniform
  draw is \<open>n\<close>, the \<open>n\<close>-th Gaussian draw is \<open>n + 1\<close>), and a constrainer that puts the
  particle in the plane \<open>z = 0\<close>, reads the torque as \<open>2\<close> and records the angle it is
  given in the director and in the velocity.
\<close>

definition example_math :: "real Math" where
  "example_math = \<lparr>fsqrt = sqrt, dec = (\<lambda>m e. real_of_int m / 10 ^ e)\<rparr>"

definition example_rng :: "(real, nat) RNG" where
  "example_rng = \<lparr>drnd = (\<lambda>g. (real g, Suc g)), gauss_rng = (\<lambda>sigma g. (real g + 1, Suc g))\<rparr>"

definition example_constrainer :: "real Constrainer" where
  "example_constrainer =
     \<lparr>enforce = (\<lambda>p. p\<lparr>z := 0\<rparr>),
      project_torque = (\<lambda>p. 2),
      rotate_director = (\<lambda>p theta. p\<lparr>nx := nx p + theta\<rparr>),
      rotate_velocity = (\<lambda>p theta. p\<lparr>vx := vx p + theta\<rparr>)\<rparr>"

definition example_integrator :: "(real, nat) Integrator" where
  "example_integrator =
     \<lparr>m_dt = 1, m_v0 = 1, m_mu = 3, m_mur = 1, m_stoch_coeff = 1, m_tau = 1,
      m_nematic = False, m_velocity = False, m_temp = (\<lambda>step. 0),
      m_potential = None, m_align = None,
      m_constrainer = Some example_constrainer, m_rng = example_rng\<rparr>"

definition example_particle :: "real Particle" where
  "example_particle =
     \<lparr>x = 0, y = 0, z = 0, nx = 1, ny = 0, nz = 0, vx = 5, vy = 5, vz = 5,
      fx = 0, fy = 2, fz = 0, omega = 0, age = 0\<rparr>"

definition example_ops :: "(real, unit) SystemOps" where
  "example_ops = \<lparr>reset_forces = (\<lambda>st. st), reset_torques = (\<lambda>st. st), update_mesh = (\<lambda>st m. m)\<rparr>"

definition example_system :: "(real, unit) System" where
  "example_system =
     \<lparr>m_particles = (\<lambda>pid. example_particle), m_group = [7], m_run_step = 0, m_mesh = ()\<rparr>"

text \<open>A group that is long enough for the periodic patch: the ids \<open>0\<close> to \<open>2999\<close>.\<close>

definition large_system :: "(real, unit) System" where
  "large_system =
     \<lparr>m_particles = (\<lambda>pid. example_particle), m_group = [0 .. 2999], m_run_step = 0, m_mesh = ()\<rparr>"

subsection \<open>The single-particle scenario\<close>







section \<open>Facts about \<^verbatim>\<open>set_pair_parameters\<close>\<close>

lemma write_k_length:
  "write_k tbl i j v = Some tbl' \<Longrightarrow> length tbl' = length tbl"
  by (auto simp: write_k_def split: if_splits)

lemma write_k_a:
  "write_k tbl i j v = Some tbl' \<Longrightarrow> map (map a) tbl' = map (map a) tbl"
proof -
  assume w: "write_k tbl i j v = Some tbl'"
  then have len: "length tbl' = length tbl"
    by (rule write_k_length)
  have "map a (tbl' ! r) = map a (tbl ! r)" if "r < length tbl" for r
  proof (cases "r = nat i")
    case True
    with w that show ?thesis
      by (auto simp: write_k_def map_update list_update_same_conv split: if_splits)
  next
    case False
    with w that show ?thesis
      by (auto simp: write_k_def split: if_splits)
  qed
  with len show ?thesis
    by (auto intro!: nth_equalityI)
qed

lemma write_k_same:
  "write_k tbl i j v = Some tbl' \<Longrightarrow> k (tbl' ! nat i ! nat j) = v"
  by (auto simp: write_k_def split: if_splits)

lemma write_k_other:
  "write_k tbl i j v = Some tbl' \<Longrightarrow> (r, c) \<noteq> (nat i, nat j) \<Longrightarrow> tbl' ! r ! c = tbl ! r ! c"
  by (cases "r = nat i"; cases "r < length tbl")
     (auto simp: write_k_def split: if_splits)

lemma assign_pair_params_Returned:
  assumes "assign_pair_params type_1 type_2 param_k param_a P = Returned P'"
  shows "1 \<le> type_1 \<and> type_1 \<le> int (length (m_pair_params P))
       \<and> 1 \<le> type_2 \<and> type_2 \<le> int (length (m_pair_params P ! nat (type_1 - 1)))
       \<and> k (m_pair_params P' ! nat (type_1 - 1) ! nat (type_2 - 1)) = param_a
       \<and> k (m_pair_params P' ! nat (type_2 - 1) ! nat (type_1 - 1)) = param_a
       \<and> map (map a) (m_pair_params P') = map (map a) (m_pair_params P)
       \<and> m_has_pair_params P'"
proof -
  from assms obtain t1 t2 t3 t4 where
    w1: "write_k (m_pair_params P) (type_1 - 1) (type_2 - 1) param_k = Some t1" and
    w2: "(if type_1 \<noteq> type_2 then write_k t1 (type_2 - 1) (type_1 - 1) param_k else Some t1) = Some t2" and
    w3: "write_k t2 (type_1 - 1) (type_2 - 1) param_a = Some t3" and
    w4: "(if type_1 \<noteq> type_2 then write_k t3 (type_2 - 1) (type_1 - 1) param_a else Some t3) = Some t4" and
    P': "P' = P\<lparr>m_pair_params := t4, m_has_pair_params := True\<rparr>"
    by (auto simp: assign_pair_params_def split: option.splits)
  from w1 have range: "1 \<le> type_1" "type_1 \<le> int (length (m_pair_params P))"
      "1 \<le> type_2" "type_2 \<le> int (length (m_pair_params P ! nat (type_1 - 1)))"
    by (auto simp: write_k_def split: if_splits)
  have a1: "map (map a) t1 = map (map a) (m_pair_params P)"
    using w1 by (rule write_k_a)
  have a2: "map (map a) t2 = map (map a) t1"
    using w2 by (auto split: if_splits dest: write_k_a)
  have a3: "map (map a) t3 = map (map a) t2"
    using w3 by (rule write_k_a)
  have a4: "map (map a) t4 = map (map a) t3"
    using w4 by (auto split: if_splits dest: write_k_a)
  have k3: "k (t3 ! nat (type_1 - 1) ! nat (type_2 - 1)) = param_a"
    using w3 by (rule write_k_same)
  have k4: "k (t4 ! nat (type_1 - 1) ! nat (type_2 - 1)) = param_a
          \<and> k (t4 ! nat (type_2 - 1) ! nat (type_1 - 1)) = param_a"
  proof (cases "type_1 = type_2")
    case True
    with w4 k3 show ?thesis by simp
  next
    case False
    with w4 have w: "write_k t3 (type_2 - 1) (type_1 - 1) param_a = Some t4"
      by simp
    from w have "1 \<le> type_2" "1 \<le> type_1"
      by (auto simp: write_k_def split: if_splits)
    with False have "(nat (type_1 - 1), nat (type_2 - 1)) \<noteq> (nat (type_2 - 1), nat (type_1 - 1))"
      by auto
    from write_k_other [OF w this] write_k_same [OF w] k3 show ?thesis
      by simp
  qed
  from range a1 a2 a3 a4 k4 P' show ?thesis
    by simp
qed

lemma example_run:
  "set_pair_parameters example_cast [''type_1'' \<mapsto> ''1'', ''type_2'' \<mapsto> ''2'', ''a'' \<mapsto> ''7''] example_potential
   = Returned (example_potential\<lparr>m_pair_params := [[\<lparr>k = 1, a = 5\<rparr>, \<lparr>k = 7, a = 5\<rparr>], [\<lparr>k = 7, a = 5\<rparr>, \<lparr>k = 1, a = 5\<rparr>]],
        m_has_pair_params := True\<rparr>)"
  by (simp add: set_pair_parameters_def example_cast_def example_potential_def
      strength_value_def range_value_def assign_pair_params_def write_k_def)

text \<open>
  Claim C9. Whenever \<^verbatim>\<open>set_pair_parameters\<close> returns, both type names were present and
  read as integers \<open>type_1\<close>, \<open>type_2\<close> inside the table, and the stored strength
  \<open>k\<close> of the cell \<open>[type_1-1][type_2-1]\<close> and of its mirror cell equals the range value
  (the supplied \<open>a\<close>, or the default \<open>m_a\<close>): the assignments of lines 145 and 147 write
  the range into \<open>.k\<close>. The field \<open>.a\<close> of every cell is what it was before the call.
\<close>

theorem set_pair_parameters_stores_range_in_k:
  assumes "set_pair_parameters L pair_param P = Returned P'"
  shows "\<exists>s1 s2 type_1 type_2 r.
           pair_param ''type_1'' = Some s1 \<and> lexical_cast_int L s1 = Some type_1
         \<and> pair_param ''type_2'' = Some s2 \<and> lexical_cast_int L s2 = Some type_2
         \<and> range_value L pair_param P = Some r
         \<and> 1 \<le> type_1 \<and> type_1 \<le> int (length (m_pair_params P))
         \<and> 1 \<le> type_2 \<and> type_2 \<le> int (length (m_pair_params P ! nat (type_1 - 1)))
         \<and> k (m_pair_params P' ! nat (type_1 - 1) ! nat (type_2 - 1)) = r
         \<and> k (m_pair_params P' ! nat (type_2 - 1) ! nat (type_1 - 1)) = r
         \<and> map (map a) (m_pair_params P') = map (map a) (m_pair_params P)"
proof -
  from assms obtain s1 s2 type_1 type_2 param_k param_a where
    keys: "pair_param ''type_1'' = Some s1" "lexical_cast_int L s1 = Some type_1"
      "pair_param ''type_2'' = Some s2" "lexical_cast_int L s2 = Some type_2"
      "range_value L pair_param P = Some param_a" and
    run: "assign_pair_params type_1 type_2 param_k param_a P = Returned P'"
    by (auto simp: set_pair_parameters_def split: option.splits)
  from assign_pair_params_Returned [OF run] keys show ?thesis
    by blast
qed

theorem set_pair_parameters_stores_range_in_k_witness:
  "\<exists>P'. set_pair_parameters example_cast [''type_1'' \<mapsto> ''1'', ''type_2'' \<mapsto> ''2'', ''a'' \<mapsto> ''7''] example_potential = Returned P'
     \<and> k (m_pair_params P' ! 0 ! 1) = 7 \<and> k (m_pair_params P' ! 1 ! 0) = 7
     \<and> map (map a) (m_pair_params P') = [[5, 5], [5, 5]]"
proof -
  let ?pp = "[''type_1'' \<mapsto> ''1'', ''type_2'' \<mapsto> ''2'', ''a'' \<mapsto> ''7'']"
  obtain P' where run: "set_pair_parameters example_cast ?pp example_potential = Returned P'"
    using example_run by blast
  from set_pair_parameters_stores_range_in_k [OF run]
  obtain s1 s2 type_1 type_2 r where
    k1: "?pp ''type_1'' = Some s1" and c1: "lexical_cast_int example_cast s1 = Some type_1" and
    k2: "?pp ''type_2'' = Some s2" and c2: "lexical_cast_int example_cast s2 = Some type_2" and
    rv: "range_value example_cast ?pp example_potential = Some r" and
    cells: "k (m_pair_params P' ! nat (type_1 - 1) ! nat (type_2 - 1)) = r"
      "k (m_pair_params P' ! nat (type_2 - 1) ! nat (type_1 - 1)) = r"
      "map (map a) (m_pair_params P') = map (map a) (m_pair_params example_potential)"
    by blast
  from k1 have "s1 = ''1''" by simp
  with c1 have t1: "type_1 = 1" by (simp add: example_cast_def)
  from k2 have "s2 = ''2''" by simp
  with c2 have t2: "type_2 = 2" by (simp add: example_cast_def)
  from rv have r: "r = 7" by (simp add: range_value_def example_cast_def)
  from cells have "k (m_pair_params P' ! 0 ! 1) = 7" "k (m_pair_params P' ! 1 ! 0) = 7"
    "map (map a) (m_pair_params P') = [[5, 5], [5, 5]]"
    unfolding t1 t2 r by (simp_all add: example_potential_def)
  with run show ?thesis
    by (intro exI conjI)
qed

text \<open>
  Claim C10. \<^verbatim>\<open>set_pair_parameters\<close> is stopped by a \<^verbatim>\<open>runtime_error\<close> exactly when
  the key \<open>type_1\<close> or the key \<open>type_2\<close> is missing, and then the object (the table
  \<open>m_pair_params\<close> and the flag \<open>m_has_pair_params\<close> with it) is as it was before the call.
\<close>

theorem set_pair_parameters_runtime_error:
  "((\<exists>msg s. set_pair_parameters L pair_param P = Raised (Runtime_error msg) s)
      \<longleftrightarrow> pair_param ''type_1'' = None \<or> pair_param ''type_2'' = None)
   \<and> (\<forall>msg s. set_pair_parameters L pair_param P = Raised (Runtime_error msg) s \<longrightarrow> s = P)"
proof -
  have no_runtime: "assign_pair_params t1 t2 pk pa P \<noteq> Raised (Runtime_error msg) s" for t1 t2 pk pa msg s
    by (auto simp: assign_pair_params_def split: option.splits)
  show ?thesis
    by (auto simp: set_pair_parameters_def no_runtime split: option.splits)
qed

theorem set_pair_parameters_runtime_error_witness:
  "\<exists>msg. set_pair_parameters example_cast [''type_1'' \<mapsto> ''1''] example_potential
      = Raised (Runtime_error msg) example_potential"
proof -
  let ?pp = "[''type_1'' \<mapsto> ''1'']"
  have "?pp ''type_1'' = None \<or> ?pp ''type_2'' = None"
    by simp
  with set_pair_parameters_runtime_error [of example_cast ?pp example_potential]
  obtain msg s where
    r: "set_pair_parameters example_cast ?pp example_potential = Raised (Runtime_error msg) s"
    by blast
  with set_pair_parameters_runtime_error [of example_cast ?pp example_potential]
  have "s = example_potential"
    by blast
  with r show ?thesis by blast
qed

section \<open>Facts about \<^verbatim>\<open>integrate()\<close>\<close>


lemma particle_loop_returns:
  "m_constrainer I = Some C \<Longrightarrow> \<exists>st' g'. particle_loop I T B sqrt_dt ps (st, g) = Returned (st', g')"
proof (induction ps arbitrary: st g)
  case Nil
  then show ?case by simp
next
  case (Cons pid rest)
  obtain p1 g1 where t: "translate I T B sqrt_dt (st pid, g) = (p1, g1)"
    by (cases "translate I T B sqrt_dt (st pid, g)")
  obtain p2 g2 where r: "orient I C (p1, g1) = (p2, g2)"
    by (cases "orient I C (p1, g1)")
  from Cons.IH [OF Cons.prems] obtain st' g' where
    "particle_loop I T B sqrt_dt rest (st(pid := p2), g2) = Returned (st', g')"
    by blast
  with Cons.prems t r show ?case
    by simp
qed








lemma flip_loop_Cons:
  "flip_loop I (pid # rest) (st, g) =
     flip_loop I rest
       (if fst (drnd (m_rng I) g) < m_tau I then st(pid := flip_director (m_velocity I) (st pid)) else st,
        snd (drnd (m_rng I) g))"
  by (simp add: case_prod_beta)

lemma draws_shift:
  "((\<lambda>h. snd (drnd R h)) ^^ n) (snd (drnd R g)) = snd (drnd R (((\<lambda>h. snd (drnd R h)) ^^ n) g))"
  using funpow_swap1 [of "\<lambda>h. snd (drnd R h)" n g] by simp

lemma flip_loop_rng:
  "snd (flip_loop I ps (st, g)) = ((\<lambda>h. snd (drnd (m_rng I) h)) ^^ length ps) g"
proof (induction ps arbitrary: st g)
  case Nil
  then show ?case by simp
next
  case (Cons pid rest)
  show ?case
    by (simp only: flip_loop_Cons Cons.IH length_Cons funpow.simps o_apply draws_shift)
qed


subsection \<open>The periodic patch\<close>

lemma group_at_Some:
  "0 \<le> i \<Longrightarrow> i < int (length ps) \<Longrightarrow> group_at ps i = Some (ps ! nat i)"
  by (simp add: group_at_def)

lemma group_at_Some_iff:
  "(\<exists>pid. group_at ps i = Some pid) \<longleftrightarrow> 0 \<le> i \<and> i < int (length ps)"
  by (simp add: group_at_def)

lemma nth_nat_eq:
  assumes "distinct ps" and "0 \<le> i" "i < int (length ps)" and "0 \<le> j" "j < int (length ps)"
  shows "ps ! nat i = ps ! nat j \<longleftrightarrow> i = j"
proof -
  from assms have "nat i < length ps" "nat j < length ps"
    by simp_all
  with assms(1) have "ps ! nat i = ps ! nat j \<longleftrightarrow> nat i = nat j"
    by (simp add: nth_eq_iff_index_eq)
  with assms(2,4) show ?thesis
    by auto
qed

lemma boundary_scan_in_range:
  assumes "\<forall>i \<in> set idx. 0 \<le> i \<and> i < int (length ps)"
  shows "\<exists>r. boundary_scan test ps st idx b = Inr r \<and> (r \<in> set idx \<or> r = b)"
  using assms
proof (induction idx)
  case Nil
  then show ?case by simp
next
  case (Cons i rest)
  then have "group_at ps i = Some (ps ! nat i)"
    by (simp add: group_at_Some)
  with Cons show ?case
    by auto
qed

lemma copy_loop_in_range:
  "copy_loop ps off sh idx st = Returned st' \<Longrightarrow> i \<in> set idx \<Longrightarrow> 0 \<le> i \<and> i < int (length ps)"
proof (induction idx arbitrary: st)
  case Nil
  then show ?case by simp
next
  case (Cons j rest)
  from Cons.prems(1) obtain pi0 pid where
    g: "group_at ps (j - off) = Some pi0" "group_at ps j = Some pid"
    by (auto split: option.splits)
  then have j: "0 \<le> j \<and> j < int (length ps)"
    using group_at_Some_iff [of ps j] by blast
  from Cons.prems(1) g have
    "copy_loop ps off sh rest (st(pid := (st pid)\<lparr>x := x (st pi0), y := sh (y (st pi0)), z := z (st pi0)\<rparr>)) = Returned st'"
    by (simp add: Let_def)
  from Cons.IH [OF this] Cons.prems(2) j show ?case
    by auto
qed

lemma copy_loop_result:
  assumes "distinct ps" and "distinct idx"
    and "\<forall>i \<in> set idx. 0 \<le> i \<and> i < int (length ps) \<and> 0 \<le> i - off \<and> i - off < int (length ps)
           \<and> i - off \<notin> set idx"
  shows "\<exists>st'. copy_loop ps off sh idx st = Returned st'
     \<and> (\<forall>i \<in> set idx. st' (ps ! nat i) =
           (st (ps ! nat i))\<lparr>x := x (st (ps ! nat (i - off))),
                             y := sh (y (st (ps ! nat (i - off)))),
                             z := z (st (ps ! nat (i - off)))\<rparr>)
     \<and> (\<forall>j. 0 \<le> j \<and> j < int (length ps) \<and> j \<notin> set idx \<longrightarrow> st' (ps ! nat j) = st (ps ! nat j))"
  using assms(2,3)
proof (induction idx arbitrary: st)
  case Nil
  then show ?case by simp
next
  case (Cons i rest)
  let ?src = "\<lambda>s m. s (ps ! nat (m - off))"
  let ?upd = "\<lambda>s m. (s (ps ! nat m))\<lparr>x := x (?src s m), y := sh (y (?src s m)), z := z (?src s m)\<rparr>"
  define st1 where "st1 = st(ps ! nat i := ?upd st i)"
  from Cons.prems have i: "0 \<le> i" "i < int (length ps)" "0 \<le> i - off" "i - off < int (length ps)"
    and i_rest: "i \<notin> set rest"
    and rest: "distinct rest"
      "\<forall>m \<in> set rest. 0 \<le> m \<and> m < int (length ps) \<and> 0 \<le> m - off \<and> m - off < int (length ps)
           \<and> m - off \<notin> set rest"
    and src: "\<forall>m \<in> set rest. m - off \<noteq> i"
    by auto
  have step: "copy_loop ps off sh (i # rest) st = copy_loop ps off sh rest st1"
    using i by (simp add: group_at_Some st1_def Let_def)
  from Cons.IH [OF rest, of st1] obtain st' where
    run: "copy_loop ps off sh rest st1 = Returned st'" and
    dst: "\<forall>m \<in> set rest. st' (ps ! nat m) = ?upd st1 m" and
    frame: "\<forall>j. 0 \<le> j \<and> j < int (length ps) \<and> j \<notin> set rest \<longrightarrow> st' (ps ! nat j) = st1 (ps ! nat j)"
    by blast
  have other: "st1 (ps ! nat j) = st (ps ! nat j)" if "0 \<le> j" "j < int (length ps)" "j \<noteq> i" for j
    using that nth_nat_eq [OF assms(1) that(1,2) i(1,2)] by (simp add: st1_def)
  have "st' (ps ! nat m) = ?upd st m" if m: "m \<in> set (i # rest)" for m
  proof (cases "m = i")
    case True
    with frame i i_rest have "st' (ps ! nat m) = st1 (ps ! nat i)"
      by simp
    with True show ?thesis
      by (simp add: st1_def)
  next
    case False
    with m have in_rest: "m \<in> set rest" by simp
    with rest(2) src have r: "0 \<le> m" "m < int (length ps)" "0 \<le> m - off" "m - off < int (length ps)"
      "m - off \<noteq> i"
      by auto
    from dst in_rest have "st' (ps ! nat m) = ?upd st1 m"
      by blast
    with other [OF r(1,2) False] other [OF r(3,4,5)] show ?thesis
      by simp
  qed
  moreover have "st' (ps ! nat j) = st (ps ! nat j)"
    if "0 \<le> j \<and> j < int (length ps) \<and> j \<notin> set (i # rest)" for j
    using that frame other [of j] by simp
  ultimately show ?case
    using run step by simp
qed

lemma index_constants:
  "internal_index_start = 0" "internal_index_end = 967"
  "up_internal_index_start = 968" "up_internal_index_end = 1935"
  "down_internal_index_start = 1936" "down_internal_index_end = 2903"
  "right_boundary_start_0 = 1027" "right_boundary_end_0 = 1087"
  "left_boundary_start_0 = 1607" "left_boundary_end_0 = 1667"
  "boundary_periodic_update_region = 30"
  by (simp_all add: internal_index_start_def internal_index_end_def up_internal_index_start_def
      up_internal_index_end_def down_internal_index_start_def down_internal_index_end_def
      right_boundary_start_0_def right_boundary_end_0_def left_boundary_start_0_def
      left_boundary_end_0_def boundary_periodic_update_region_def)

lemma close_in_y_in_range:
  "0 \<le> i \<Longrightarrow> i < int (length ps) \<Longrightarrow> 0 \<le> j \<Longrightarrow> j < int (length ps)
     \<Longrightarrow> \<exists>c. close_in_y M ps st i j = Inr c"
  by (simp add: close_in_y_def group_at_Some)

lemma window_scan:
  assumes "2904 \<le> length ps" and "30 \<le> b" and "b \<le> 2000"
  shows "\<exists>r. boundary_scan test ps st (scan_window b) b = Inr r \<and> 0 \<le> r \<and> r < int (length ps)"
proof -
  have w: "set (scan_window b) = {b - 30 .. b + 30 - 1}"
    by (simp add: scan_window_def index_constants)
  from assms have "\<forall>i \<in> set (scan_window b). 0 \<le> i \<and> i < int (length ps)"
    unfolding w by auto
  from boundary_scan_in_range [OF this, of test st b] obtain r where
    "boundary_scan test ps st (scan_window b) b = Inr r" "r \<in> set (scan_window b) \<or> r = b"
    by blast
  with assms show ?thesis
    unfolding w by auto
qed

lemma locate_boundaries_returns:
  assumes "2904 \<le> length ps"
  shows "\<exists>b. locate_boundaries M ps st = Inr b"
proof -
  let ?half = "length_period M / dec M 2 0" and ?nhalf = "(- length_period M) / dec M 2 0"
  have bounds: "30 \<le> right_boundary_start_0" "right_boundary_start_0 \<le> 2000"
    "30 \<le> right_boundary_end_0" "right_boundary_end_0 \<le> 2000"
    "30 \<le> left_boundary_start_0" "left_boundary_start_0 \<le> 2000"
    "30 \<le> left_boundary_end_0" "left_boundary_end_0 \<le> 2000"
    by (simp_all add: index_constants)
  from window_scan [OF assms bounds(1,2)] obtain rs where
    rs: "boundary_scan (\<lambda>p. y p \<le> ?half) ps st (scan_window right_boundary_start_0) right_boundary_start_0 = Inr rs"
      "0 \<le> rs" "rs < int (length ps)"
    by blast
  from window_scan [OF assms bounds(3,4)] obtain re where
    re: "boundary_scan (\<lambda>p. y p \<le> ?nhalf) ps st (scan_window right_boundary_end_0) right_boundary_end_0 = Inr re"
      "0 \<le> re" "re < int (length ps)"
    by blast
  from close_in_y_in_range [OF rs(2,3) re(2,3)] obtain cr where
    cr: "close_in_y M ps st rs re = Inr cr"
    by blast
  from window_scan [OF assms bounds(5,6)] obtain ls where
    ls: "boundary_scan (\<lambda>p. y p \<ge> ?nhalf) ps st (scan_window left_boundary_start_0) left_boundary_start_0 = Inr ls"
      "0 \<le> ls" "ls < int (length ps)"
    by blast
  from window_scan [OF assms bounds(7,8)] obtain le where
    le: "boundary_scan (\<lambda>p. y p \<ge> ?half) ps st (scan_window left_boundary_end_0) left_boundary_end_0 = Inr le"
      "0 \<le> le" "le < int (length ps)"
    by blast
  from close_in_y_in_range [OF le(2,3) ls(2,3)] obtain cl where
    cl: "close_in_y M ps st le ls = Inr cl"
    by blast
  show ?thesis
    unfolding locate_boundaries_def by (simp only: rs(1) re(1) cr ls(1) le(1) cl sum.case) blast
qed

lemma copy_range:
  assumes "distinct ps" and "0 \<le> lo - off" and "hi < int (length ps)" and "hi - off < lo" and "lo \<le> hi"
  shows "\<exists>st'. copy_loop ps off sh [lo .. hi] st = Returned st'
     \<and> (\<forall>i. lo \<le> i \<and> i \<le> hi \<longrightarrow> st' (ps ! nat i) =
           (st (ps ! nat i))\<lparr>x := x (st (ps ! nat (i - off))),
                             y := sh (y (st (ps ! nat (i - off)))),
                             z := z (st (ps ! nat (i - off)))\<rparr>)
     \<and> (\<forall>j. 0 \<le> j \<and> j < int (length ps) \<and> (j < lo \<or> hi < j) \<longrightarrow> st' (ps ! nat j) = st (ps ! nat j))"
proof -
  from assms(2-) have "\<forall>i \<in> set [lo .. hi]. 0 \<le> i \<and> i < int (length ps) \<and> 0 \<le> i - off
      \<and> i - off < int (length ps) \<and> i - off \<notin> set [lo .. hi]"
    by auto
  from copy_loop_result [OF assms(1) distinct_upto this, of sh st] obtain st' where
    run: "copy_loop ps off sh [lo .. hi] st = Returned st'" and
    dst: "\<forall>i \<in> set [lo .. hi]. st' (ps ! nat i) =
           (st (ps ! nat i))\<lparr>x := x (st (ps ! nat (i - off))),
                             y := sh (y (st (ps ! nat (i - off)))),
                             z := z (st (ps ! nat (i - off)))\<rparr>" and
    frame: "\<forall>j. 0 \<le> j \<and> j < int (length ps) \<and> j \<notin> set [lo .. hi] \<longrightarrow> st' (ps ! nat j) = st (ps ! nat j)"
    by blast
  from dst have "\<forall>i. lo \<le> i \<and> i \<le> hi \<longrightarrow> st' (ps ! nat i) =
           (st (ps ! nat i))\<lparr>x := x (st (ps ! nat (i - off))),
                             y := sh (y (st (ps ! nat (i - off)))),
                             z := z (st (ps ! nat (i - off)))\<rparr>"
    by simp
  moreover from frame
  have "\<forall>j. 0 \<le> j \<and> j < int (length ps) \<and> (j < lo \<or> hi < j) \<longrightarrow> st' (ps ! nat j) = st (ps ! nat j)"
    by auto
  ultimately show ?thesis
    using run by blast
qed

lemma periodic_copy_result:
  assumes "distinct ps" and "2904 \<le> length ps"
  shows "\<exists>st'. periodic_copy M ps st = Returned st'
     \<and> (\<forall>i. 968 \<le> i \<and> i \<le> 1935 \<longrightarrow> st' (ps ! nat i) =
           (st (ps ! nat i))\<lparr>x := x (st (ps ! nat (i - 968))),
                             y := y (st (ps ! nat (i - 968))) + length_period M,
                             z := z (st (ps ! nat (i - 968)))\<rparr>)
     \<and> (\<forall>i. 1936 \<le> i \<and> i \<le> 2903 \<longrightarrow> st' (ps ! nat i) =
           (st (ps ! nat i))\<lparr>x := x (st (ps ! nat (i - 1936))),
                             y := y (st (ps ! nat (i - 1936))) - length_period M,
                             z := z (st (ps ! nat (i - 1936)))\<rparr>)
     \<and> (\<forall>j. 0 \<le> j \<and> j < int (length ps) \<and> (j < 968 \<or> 2903 < j) \<longrightarrow> st' (ps ! nat j) = st (ps ! nat j))"
proof -
  define us ue ds de where "us = up_internal_index_start" and "ue = up_internal_index_end"
    and "ds = down_internal_index_start" and "de = down_internal_index_end"
  have v: "us = 968" "ue = 1935" "ds = 1936" "de = 2903"
    by (simp_all add: us_def ue_def ds_def de_def index_constants)
  have offs: "up_internal_index_start - internal_index_start = 968"
    "down_internal_index_start - internal_index_start = 1936"
    by (simp_all add: index_constants)
  from assms(2) have up: "0 \<le> us - 968" "ue < int (length ps)" "ue - 968 < us" "us \<le> ue"
    and down: "0 \<le> ds - 1936" "de < int (length ps)" "de - 1936 < ds" "ds \<le> de"
    by (simp_all add: v)
  from copy_range [OF assms(1) up, of "\<lambda>v. v + length_period M" st] obtain st1 where
    run1: "copy_loop ps 968 (\<lambda>v. v + length_period M) [us .. ue] st = Returned st1" and
    dst1: "\<forall>i. us \<le> i \<and> i \<le> ue \<longrightarrow> st1 (ps ! nat i) =
           (st (ps ! nat i))\<lparr>x := x (st (ps ! nat (i - 968))),
                             y := y (st (ps ! nat (i - 968))) + length_period M,
                             z := z (st (ps ! nat (i - 968)))\<rparr>" and
    frame1: "\<forall>j. 0 \<le> j \<and> j < int (length ps) \<and> (j < us \<or> ue < j) \<longrightarrow> st1 (ps ! nat j) = st (ps ! nat j)"
    by blast
  from copy_range [OF assms(1) down, of "\<lambda>v. v - length_period M" st1] obtain st2 where
    run2: "copy_loop ps 1936 (\<lambda>v. v - length_period M) [ds .. de] st1 = Returned st2" and
    dst2: "\<forall>i. ds \<le> i \<and> i \<le> de \<longrightarrow> st2 (ps ! nat i) =
           (st1 (ps ! nat i))\<lparr>x := x (st1 (ps ! nat (i - 1936))),
                              y := y (st1 (ps ! nat (i - 1936))) - length_period M,
                              z := z (st1 (ps ! nat (i - 1936)))\<rparr>" and
    frame2: "\<forall>j. 0 \<le> j \<and> j < int (length ps) \<and> (j < ds \<or> de < j) \<longrightarrow> st2 (ps ! nat j) = st1 (ps ! nat j)"
    by blast
  have run: "periodic_copy M ps st = Returned st2"
    unfolding periodic_copy_def offs
    using run1 run2 by (simp add: us_def ue_def ds_def de_def)
  have a: "st2 (ps ! nat i) =
           (st (ps ! nat i))\<lparr>x := x (st (ps ! nat (i - 968))),
                             y := y (st (ps ! nat (i - 968))) + length_period M,
                             z := z (st (ps ! nat (i - 968)))\<rparr>"
    if "968 \<le> i \<and> i \<le> 1935" for i
  proof -
    from that assms(2) have "st2 (ps ! nat i) = st1 (ps ! nat i)"
      using frame2 by (simp add: v)
    with that dst1 show ?thesis
      by (simp add: v)
  qed
  have b: "st2 (ps ! nat i) =
           (st (ps ! nat i))\<lparr>x := x (st (ps ! nat (i - 1936))),
                             y := y (st (ps ! nat (i - 1936))) - length_period M,
                             z := z (st (ps ! nat (i - 1936)))\<rparr>"
    if "1936 \<le> i \<and> i \<le> 2903" for i
  proof -
    from that assms(2) have "st1 (ps ! nat i) = st (ps ! nat i)"
      "st1 (ps ! nat (i - 1936)) = st (ps ! nat (i - 1936))"
      using frame1 by (simp_all add: v)
    moreover from that dst2 have "st2 (ps ! nat i) =
           (st1 (ps ! nat i))\<lparr>x := x (st1 (ps ! nat (i - 1936))),
                              y := y (st1 (ps ! nat (i - 1936))) - length_period M,
                              z := z (st1 (ps ! nat (i - 1936)))\<rparr>"
      by (simp add: v)
    ultimately show ?thesis
      by simp
  qed
  have c: "st2 (ps ! nat j) = st (ps ! nat j)"
    if "0 \<le> j \<and> j < int (length ps) \<and> (j < 968 \<or> 2903 < j)" for j
  proof -
    from that have "st2 (ps ! nat j) = st1 (ps ! nat j)"
      using frame2 by (auto simp: v)
    moreover from that have "st1 (ps ! nat j) = st (ps ! nat j)"
      using frame1 by (auto simp: v)
    ultimately show ?thesis
      by simp
  qed
  from run a b c show ?thesis
    by blast
qed

lemma periodic_copy_needs_group:
  assumes "periodic_copy M ps st = Returned st'"
  shows "2904 \<le> length ps"
proof -
  from assms obtain st1 where
    run: "copy_loop ps (down_internal_index_start - internal_index_start) (\<lambda>v. v - length_period M)
       [down_internal_index_start .. down_internal_index_end] st1 = Returned st'"
    by (auto simp: periodic_copy_def split: outcome.splits)
  have "down_internal_index_end \<in> set [down_internal_index_start .. down_internal_index_end]"
    by (simp add: down_internal_index_end_def internal_index_end_def internal_index_start_def)
  from copy_loop_in_range [OF run this] show ?thesis
    by (simp add: index_constants)
qed

lemma periodic_update_needs_group:
  assumes "periodic_update M ps st = Returned st'"
  shows "2904 \<le> length ps"
proof -
  from assms obtain st1 where "periodic_copy M ps st = Returned st1"
    by (auto simp: periodic_update_def periodic_update_flag_def update_boundary_def
        split: sum.splits outcome.splits)
  then show ?thesis
    by (rule periodic_copy_needs_group)
qed

lemma periodic_update_is_copy:
  assumes "2904 \<le> length ps"
  shows "periodic_update M ps st = periodic_copy M ps st"
proof -
  from locate_boundaries_returns [OF assms] obtain b where "locate_boundaries M ps st = Inr b"
    by blast
  then show ?thesis
    by (simp add: periodic_update_def periodic_update_flag_def update_boundary_def
        split: outcome.splits)
qed

lemma integrate_particles_returns:
  assumes "m_constrainer I = Some C"
  shows "\<exists>st g1. integrate_particles M S I (sys, g) = Returned (st, g1)"
proof -
  obtain st0 g0 where "prepare S I (m_group sys) (m_particles sys, g) = (st0, g0)"
    by (cases "prepare S I (m_group sys) (m_particles sys, g)")
  with particle_loop_returns [OF assms] show ?thesis
    by (simp add: integrate_particles_def Let_def)
qed

lemma integrate_Returned:
  assumes "integrate M S I (sys, g) = Returned (sys', g')"
  shows "\<exists>st st'. integrate_particles M S I (sys, g) = Returned (st, g')
     \<and> periodic_update M (m_group sys) st = Returned st'
     \<and> sys' = sys\<lparr>m_particles := st', m_mesh := update_mesh S st' (m_mesh sys)\<rparr>"
  using assms by (auto simp: integrate_def split: outcome.splits prod.splits)

lemma integrate_large_group:
  assumes "integrate_particles M S I (sys, g) = Returned (st, g1)"
    and "periodic_copy M (m_group sys) st = Returned st'"
    and "2904 \<le> length (m_group sys)"
  shows "integrate M S I (sys, g)
     = Returned (sys\<lparr>m_particles := st', m_mesh := update_mesh S st' (m_mesh sys)\<rparr>, g1)"
  using assms by (simp add: integrate_def periodic_update_is_copy)

text \<open>
  Claim C8. A call of \<^verbatim>\<open>integrate()\<close> that returns had a group of at least 2904 ids: the
  patch reads \<^verbatim>\<open>particles[i]\<close> up to \<open>i = 2903\<close>. Whenever the loop over the particles
  completes, leaving the particles as \<open>st\<close>, and the group has at least 2904 distinct
  ids, the call returns; the particle at group index \<open>i\<close> in 968 to 1935 ends with the
  \<open>x\<close> and \<open>z\<close> of the particle at index \<open>i - 968\<close> in \<open>st\<close> and its \<open>y\<close> plus \<open>30.0\<close>,
  the particle at index \<open>i\<close> in 1936 to 2903 with the \<open>x\<close> and \<open>z\<close> of the particle at
  index \<open>i - 1936\<close> in \<open>st\<close> and its \<open>y\<close> minus \<open>30.0\<close>, and the particles at indices 0
  to 967 are as the loop left them.
\<close>

theorem periodic_patch_overwrites_images:
  "(\<forall>sys' g'. integrate M S I (sys, g) = Returned (sys', g') \<longrightarrow> 2904 \<le> length (m_group sys))
   \<and> (integrate_particles M S I (sys, g) = Returned (st, g1)
        \<and> distinct (m_group sys) \<and> 2904 \<le> length (m_group sys) \<longrightarrow>
       (\<exists>sys'.
           integrate M S I (sys, g) = Returned (sys', g1)
         \<and> (\<forall>i \<in> {968 .. 1935}.
               x (m_particles sys' (m_group sys ! i)) = x (st (m_group sys ! (i - 968)))
             \<and> y (m_particles sys' (m_group sys ! i)) = y (st (m_group sys ! (i - 968))) + dec M 30 0
             \<and> z (m_particles sys' (m_group sys ! i)) = z (st (m_group sys ! (i - 968))))
         \<and> (\<forall>i \<in> {1936 .. 2903}.
               x (m_particles sys' (m_group sys ! i)) = x (st (m_group sys ! (i - 1936)))
             \<and> y (m_particles sys' (m_group sys ! i)) = y (st (m_group sys ! (i - 1936))) - dec M 30 0
             \<and> z (m_particles sys' (m_group sys ! i)) = z (st (m_group sys ! (i - 1936))))
         \<and> (\<forall>i < 968. m_particles sys' (m_group sys ! i) = st (m_group sys ! i))))"
proof (intro conjI allI impI)
  fix sys' g'
  assume "integrate M S I (sys, g) = Returned (sys', g')"
  from integrate_Returned [OF this] periodic_update_needs_group
  show "2904 \<le> length (m_group sys)"
    by blast
next
  let ?ps = "m_group sys"
  assume "integrate_particles M S I (sys, g) = Returned (st, g1) \<and> distinct ?ps \<and> 2904 \<le> length ?ps"
  then have loop: "integrate_particles M S I (sys, g) = Returned (st, g1)"
    and d: "distinct ?ps" and len: "2904 \<le> length ?ps"
    by simp_all
  from periodic_copy_result [OF d len, of M st] obtain st' where
    copy: "periodic_copy M ?ps st = Returned st'" and
    up: "\<forall>i. 968 \<le> i \<and> i \<le> 1935 \<longrightarrow> st' (?ps ! nat i) =
           (st (?ps ! nat i))\<lparr>x := x (st (?ps ! nat (i - 968))),
                              y := y (st (?ps ! nat (i - 968))) + length_period M,
                              z := z (st (?ps ! nat (i - 968)))\<rparr>" and
    down: "\<forall>i. 1936 \<le> i \<and> i \<le> 2903 \<longrightarrow> st' (?ps ! nat i) =
           (st (?ps ! nat i))\<lparr>x := x (st (?ps ! nat (i - 1936))),
                              y := y (st (?ps ! nat (i - 1936))) - length_period M,
                              z := z (st (?ps ! nat (i - 1936)))\<rparr>" and
    frame: "\<forall>j. 0 \<le> j \<and> j < int (length ?ps) \<and> (j < 968 \<or> 2903 < j) \<longrightarrow> st' (?ps ! nat j) = st (?ps ! nat j)"
    by blast
  let ?sys' = "sys\<lparr>m_particles := st', m_mesh := update_mesh S st' (m_mesh sys)\<rparr>"
  have run: "integrate M S I (sys, g) = Returned (?sys', g1)"
    using loop copy len by (rule integrate_large_group)
  have a: "x (st' (?ps ! i)) = x (st (?ps ! (i - 968)))
         \<and> y (st' (?ps ! i)) = y (st (?ps ! (i - 968))) + dec M 30 0
         \<and> z (st' (?ps ! i)) = z (st (?ps ! (i - 968)))" if "i \<in> {968 .. 1935}" for i :: nat
  proof -
    from that have "968 \<le> int i \<and> int i \<le> 1935" and "nat (int i - 968) = i - 968"
      by auto
    with up [rule_format, of "int i"] show ?thesis
      by (simp add: length_period_def)
  qed
  have b: "x (st' (?ps ! i)) = x (st (?ps ! (i - 1936)))
         \<and> y (st' (?ps ! i)) = y (st (?ps ! (i - 1936))) - dec M 30 0
         \<and> z (st' (?ps ! i)) = z (st (?ps ! (i - 1936)))" if "i \<in> {1936 .. 2903}" for i :: nat
  proof -
    from that have "1936 \<le> int i \<and> int i \<le> 2903" and "nat (int i - 1936) = i - 1936"
      by auto
    with down [rule_format, of "int i"] show ?thesis
      by (simp add: length_period_def)
  qed
  have c: "st' (?ps ! i) = st (?ps ! i)" if "i < 968" for i :: nat
    using that len frame [rule_format, of "int i"] by simp
  from run a b c
  show "\<exists>sys'.
           integrate M S I (sys, g) = Returned (sys', g1)
         \<and> (\<forall>i \<in> {968 .. 1935}.
               x (m_particles sys' (?ps ! i)) = x (st (?ps ! (i - 968)))
             \<and> y (m_particles sys' (?ps ! i)) = y (st (?ps ! (i - 968))) + dec M 30 0
             \<and> z (m_particles sys' (?ps ! i)) = z (st (?ps ! (i - 968))))
         \<and> (\<forall>i \<in> {1936 .. 2903}.
               x (m_particles sys' (?ps ! i)) = x (st (?ps ! (i - 1936)))
             \<and> y (m_particles sys' (?ps ! i)) = y (st (?ps ! (i - 1936))) - dec M 30 0
             \<and> z (m_particles sys' (?ps ! i)) = z (st (?ps ! (i - 1936))))
         \<and> (\<forall>i < 968. m_particles sys' (?ps ! i) = st (?ps ! i))"
    by (intro exI [of _ ?sys']) simp
qed

lemma large_group:
  "distinct (m_group large_system)" "length (m_group large_system) = 3000"
  "m < 3000 \<Longrightarrow> m_group large_system ! m = int m"
  by (simp_all add: large_system_def)

theorem periodic_patch_overwrites_images_witness:
  "\<exists>sys' g'. integrate example_math example_ops example_integrator (large_system, 0) = Returned (sys', g')
     \<and> y (m_particles sys' 968) = y (m_particles sys' 0) + 30
     \<and> y (m_particles sys' 1936) = y (m_particles sys' 0) - 30
     \<and> x (m_particles sys' 2903) = x (m_particles sys' 967)"
proof -
  have "m_constrainer example_integrator = Some example_constrainer"
    by (simp add: example_integrator_def)
  from integrate_particles_returns [OF this] obtain st g1 where
    loop: "integrate_particles example_math example_ops example_integrator (large_system, 0)
       = Returned (st, g1)"
    by blast
  then have h: "integrate_particles example_math example_ops example_integrator (large_system, 0)
       = Returned (st, g1) \<and> distinct (m_group large_system) \<and> 2904 \<le> length (m_group large_system)"
    by (simp add: large_group)
  from periodic_patch_overwrites_images
    [of example_math example_ops example_integrator large_system 0 st g1] h
  obtain sys' where
    run: "integrate example_math example_ops example_integrator (large_system, 0) = Returned (sys', g1)" and
    up: "\<forall>i \<in> {968 .. 1935}.
               x (m_particles sys' (m_group large_system ! i)) = x (st (m_group large_system ! (i - 968)))
             \<and> y (m_particles sys' (m_group large_system ! i)) = y (st (m_group large_system ! (i - 968))) + dec example_math 30 0
             \<and> z (m_particles sys' (m_group large_system ! i)) = z (st (m_group large_system ! (i - 968)))" and
    down: "\<forall>i \<in> {1936 .. 2903}.
               x (m_particles sys' (m_group large_system ! i)) = x (st (m_group large_system ! (i - 1936)))
             \<and> y (m_particles sys' (m_group large_system ! i)) = y (st (m_group large_system ! (i - 1936))) - dec example_math 30 0
             \<and> z (m_particles sys' (m_group large_system ! i)) = z (st (m_group large_system ! (i - 1936)))" and
    keep: "\<forall>i < 968. m_particles sys' (m_group large_system ! i) = st (m_group large_system ! i)"
    by blast
  from up [rule_format, of 968] keep [rule_format, of 0]
  have a: "y (m_particles sys' 968) = y (m_particles sys' 0) + 30"
    by (simp add: large_group example_math_def)
  from down [rule_format, of 1936] keep [rule_format, of 0]
  have b: "y (m_particles sys' 1936) = y (m_particles sys' 0) - 30"
    by (simp add: large_group example_math_def)
  from down [rule_format, of 2903] keep [rule_format, of 967]
  have c: "x (m_particles sys' 2903) = x (m_particles sys' 967)"
    by (simp add: large_group)
  from run a b c show ?thesis
    by blast
qed

subsection \<open>The whole call\<close>

lemma integrate_returns:
  assumes "m_constrainer I = Some C" and "distinct (m_group sys)" and "2904 \<le> length (m_group sys)"
  shows "\<exists>sys' g'. integrate M S I (sys, g) = Returned (sys', g')"
proof -
  from integrate_particles_returns [OF assms(1)] obtain st g1 where
    loop: "integrate_particles M S I (sys, g) = Returned (st, g1)"
    by blast
  from periodic_copy_result [OF assms(2,3), of M st] obtain st' where
    "periodic_copy M (m_group sys) st = Returned st'"
    by blast
  from integrate_large_group [OF loop this assms(3)] show ?thesis
    by blast
qed

text \<open>
  Claim C7, as the code has it. \<^verbatim>\<open>integrate()\<close> does not test \<open>m_constrainer\<close>. With the
  constrainer unset and a group that is not empty, the call is stopped at line 109 of the
  first iteration, by the call through the empty pointer. By then forces and torques have
  been reset, the nematic flips and the force and torque evaluation have been done
  (\<open>prepare\<close>), and the first particle of the group has its new velocity and position
  (\<open>translate\<close>); the generator has made the draws of these two stages. No other particle
  is translated, and the periodic patch and the mesh update are not reached.
\<close>

theorem unset_constrainer_stops_after_first_translation:
  assumes "m_constrainer I = None" and "m_group sys = pid # rest"
  shows "integrate M S I (sys, g) =
     (let T = m_temp I (m_run_step sys);
          (st, g0) = prepare S I (m_group sys) (m_particles sys, g);
          (p1, g1) = translate I T (noise_amplitude M (m_mu I) T) (fsqrt M (m_dt I)) (st pid, g0)
      in Raised Null_dereference (sys\<lparr>m_particles := st(pid := p1)\<rparr>, g1))"
  using assms
  by (simp add: integrate_def integrate_particles_def Let_def split: prod.splits)

text \<open>
  Claim C7 as stated fails: it says that with the constrainer unset no field of any
  particle is modified. In the example below (one particle with id 7, no constrainer) the
  call is stopped with the particle's position moved from \<open>x = 0\<close> to \<open>x = 1\<close> and its
  velocity overwritten.
\<close>

theorem unset_constrainer_counterexample:
  "integrate example_math example_ops (example_integrator\<lparr>m_constrainer := None\<rparr>) (example_system, 0)
     = Raised Null_dereference
         (example_system\<lparr>m_particles := (\<lambda>pid. example_particle)
            (7 := example_particle\<lparr>vx := 1, vy := 6, vz := 0, x := 1, y := 6\<rparr>)\<rparr>, 0)
   \<and> x (example_particle\<lparr>vx := 1, vy := 6, vz := 0, x := 1, y := 6\<rparr>) = 1
   \<and> x (m_particles example_system 7) = 0"
  by (simp add: integrate_def integrate_particles_def prepare_def nematic_flips_def translate_def
      drift_update_def example_integrator_def example_system_def example_ops_def
      example_particle_def Let_def)

theorem unset_constrainer_stops_after_first_translation_witness:
  "\<exists>sys' g'. integrate example_math example_ops (example_integrator\<lparr>m_constrainer := None\<rparr>)
       (example_system, 0) = Raised Null_dereference (sys', g')
     \<and> vx (m_particles sys' 7) = 1 \<and> vx (m_particles example_system 7) = 5"
proof -
  have h: "m_constrainer (example_integrator\<lparr>m_constrainer := None\<rparr>) = None"
    "m_group example_system = 7 # []"
    by (simp_all add: example_system_def)
  from unset_constrainer_stops_after_first_translation [OF h, of example_math example_ops 0]
  show ?thesis
    by (simp add: prepare_def nematic_flips_def translate_def drift_update_def
        example_integrator_def example_system_def example_ops_def example_particle_def Let_def)
qed

lemma translate_cold:
  "\<not> 0 < T \<Longrightarrow> translate I T B sqrt_dt (p, g) = (drift_update I p, g)"
  by (simp add: translate_def)

lemma particle_loop_cold:
  "\<not> 0 < T \<Longrightarrow> particle_loop I T B sqrt_dt ps (st, g) = particle_loop I T B' sqrt_dt' ps (st, g)"
proof (induction ps arbitrary: st g)
  case Nil
  then show ?case by simp
next
  case (Cons pid rest)
  then show ?case
    by (simp add: translate_cold split: option.splits prod.splits)
qed

lemma orient_rng:
  "snd (orient I C (p, g)) = snd (gauss_rng (m_rng I) 1 g)"
  by (simp add: orient_def Let_def split: prod.splits)

lemma gauss_shift:
  "((\<lambda>h. snd (gauss_rng R 1 h)) ^^ n) (snd (gauss_rng R 1 g))
     = snd (gauss_rng R 1 (((\<lambda>h. snd (gauss_rng R 1 h)) ^^ n) g))"
  using funpow_swap1 [of "\<lambda>h. snd (gauss_rng R 1 h)" n g] by simp

lemma particle_loop_cold_rng:
  assumes "\<not> 0 < T"
  shows "particle_loop I T B sqrt_dt ps (st, g) = Returned (st', g')
     \<Longrightarrow> g' = ((\<lambda>h. snd (gauss_rng (m_rng I) 1 h)) ^^ length ps) g"
proof (induction ps arbitrary: st g)
  case Nil
  then show ?case by simp
next
  case (Cons pid rest)
  from Cons.prems obtain C where C: "m_constrainer I = Some C"
    by (cases "m_constrainer I") (auto split: prod.splits)
  obtain p2 g2 where r: "orient I C (drift_update I (st pid), g) = (p2, g2)"
    by (cases "orient I C (drift_update I (st pid), g)")
  then have g2: "g2 = snd (gauss_rng (m_rng I) 1 g)"
    using orient_rng [of I C "drift_update I (st pid)" g] by simp
  from Cons.prems C r assms
  have "particle_loop I T B sqrt_dt rest (st(pid := p2), g2) = Returned (st', g')"
    by (simp add: translate_cold)
  from Cons.IH [OF this] show ?case
    unfolding g2 by (simp add: gauss_shift)
qed

lemma prepare_rng:
  "snd (prepare S I ps (st, g))
     = (if m_nematic I then ((\<lambda>h. snd (drnd (m_rng I) h)) ^^ length ps) g else g)"
  by (simp add: prepare_def nematic_flips_def flip_loop_rng Let_def split: prod.splits)
     (metis flip_loop_rng snd_conv)

lemma periodic_update_dec:
  assumes "dec M' = dec M"
  shows "periodic_update M' ps st = periodic_update M ps st"
  unfolding periodic_update_def locate_boundaries_def close_in_y_def periodic_copy_def
    boundary_copy_def length_period_def assms
  by (rule refl)

text \<open>
  Claim C5. At \<open>T(step) = 0\<close> (with \<open>0 < 0\<close> false for the number type) the outcome of
  \<^verbatim>\<open>integrate()\<close> is the same function of the integrator, the system and the generator
  state whatever \<^verbatim>\<open>sqrt\<close> computes: the amplitude \<open>B\<close> and \<open>sqrt(dt)\<close> never reach a
  particle, so the noise terms are skipped and not multiplied by zero. When the call
  returns, the generator has made one uniform draw per particle if nematic mode is on
  and then exactly one Gaussian draw per particle (the rotational one), each from the
  state the previous draw left; there is no translational draw. The model is a function
  of the generator's state, so two calls from the same state and seed give the same
  outcome.
\<close>

theorem zero_temperature_reproducible:
  fixes I :: "('d::{zero,one,plus,minus,times,inverse,uminus,abs,ord}, 'g) Integrator"
  assumes "m_temp I (m_run_step sys) = 0" and "\<not> (0::'d) < 0" and "dec M' = dec M"
  shows "integrate M' S I (sys, g) = integrate M S I (sys, g)
     \<and> (\<forall>sys' g'. integrate M S I (sys, g) = Returned (sys', g') \<longrightarrow>
          g' = ((\<lambda>h. snd (gauss_rng (m_rng I) 1 h)) ^^ length (m_group sys))
                 (if m_nematic I then ((\<lambda>h. snd (drnd (m_rng I) h)) ^^ length (m_group sys)) g else g))"
proof
  from assms(1,2) have cold: "\<not> 0 < m_temp I (m_run_step sys)"
    by simp
  have "integrate_particles M' S I (sys, g) = integrate_particles M S I (sys, g)"
    unfolding integrate_particles_def Let_def prod.case
    using particle_loop_cold [OF cold]
    by (cases "prepare S I (m_group sys) (m_particles sys, g)") simp
  then show "integrate M' S I (sys, g) = integrate M S I (sys, g)"
    unfolding integrate_def periodic_update_dec [OF assms(3)] by (simp only:)
  show "\<forall>sys' g'. integrate M S I (sys, g) = Returned (sys', g') \<longrightarrow>
          g' = ((\<lambda>h. snd (gauss_rng (m_rng I) 1 h)) ^^ length (m_group sys))
                 (if m_nematic I then ((\<lambda>h. snd (drnd (m_rng I) h)) ^^ length (m_group sys)) g else g)"
  proof (intro allI impI)
    fix sys' g'
    assume "integrate M S I (sys, g) = Returned (sys', g')"
    from integrate_Returned [OF this] obtain st where
      loop: "integrate_particles M S I (sys, g) = Returned (st, g')"
      by blast
    obtain st0 g0 where p: "prepare S I (m_group sys) (m_particles sys, g) = (st0, g0)"
      by (cases "prepare S I (m_group sys) (m_particles sys, g)")
    with prepare_rng [of S I "m_group sys" "m_particles sys" g]
    have g0: "g0 = (if m_nematic I then ((\<lambda>h. snd (drnd (m_rng I) h)) ^^ length (m_group sys)) g else g)"
      by simp
    from loop p have "particle_loop I (m_temp I (m_run_step sys))
        (noise_amplitude M (m_mu I) (m_temp I (m_run_step sys))) (fsqrt M (m_dt I)) (m_group sys) (st0, g0)
        = Returned (st, g')"
      by (simp add: integrate_particles_def Let_def)
    from particle_loop_cold_rng [OF cold this] g0
    show "g' = ((\<lambda>h. snd (gauss_rng (m_rng I) 1 h)) ^^ length (m_group sys))
                 (if m_nematic I then ((\<lambda>h. snd (drnd (m_rng I) h)) ^^ length (m_group sys)) g else g)"
      by simp
  qed
qed

theorem zero_temperature_reproducible_witness:
  "integrate (example_math\<lparr>fsqrt := (\<lambda>v. v + 1)\<rparr>) example_ops example_integrator (large_system, 0)
     = integrate example_math example_ops example_integrator (large_system, 0)
   \<and> (\<exists>sys'. integrate example_math example_ops example_integrator (large_system, 0)
        = Returned (sys', (Suc ^^ 3000) 0))"
proof -
  have h: "m_temp example_integrator (m_run_step large_system) = 0" "\<not> (0::real) < 0"
    "dec (example_math\<lparr>fsqrt := (\<lambda>v. v + 1)\<rparr>) = dec example_math"
    by (simp_all add: example_integrator_def)
  note t = zero_temperature_reproducible [OF h, of example_ops 0]
  have "m_constrainer example_integrator = Some example_constrainer"
    by (simp add: example_integrator_def)
  from integrate_returns [OF this, of large_system example_math example_ops 0] obtain sys' g' where
    run: "integrate example_math example_ops example_integrator (large_system, 0) = Returned (sys', g')"
    by (auto simp: large_group)
  with t have "g' = ((\<lambda>h. snd (gauss_rng (m_rng example_integrator) 1 h)) ^^ length (m_group large_system))
                 (if m_nematic example_integrator
                  then ((\<lambda>h. snd (drnd (m_rng example_integrator) h)) ^^ length (m_group large_system)) 0
                  else 0)"
    by blast
  moreover have "(\<lambda>h. snd (gauss_rng (m_rng example_integrator) 1 h)) = Suc"
    "\<not> m_nematic example_integrator"
    by (simp_all add: example_integrator_def example_rng_def)
  ultimately have "g' = (Suc ^^ 3000) 0"
    by (simp add: large_group)
  with run t show ?thesis
    by blast
qed

subsection \<open>The single-particle scenario\<close>












subsection \<open>The thermal kick in the loop\<close>

lemma thermal_kick_rng:
  "snd (thermal_kick R B sqrt_dt (p, g)) = next_gauss R (next_gauss R (next_gauss R g))"
  by (simp add: thermal_kick_def next_gauss_def Let_def split: prod.splits)

lemma body_rng:
  "snd (orient I C (translate I T B sqrt_dt (p, g)))
     = (next_gauss (m_rng I) ^^ (if 0 < T then 4 else 1)) g"
proof -
  obtain q h where t: "translate I T B sqrt_dt (p, g) = (q, h)"
    by (cases "translate I T B sqrt_dt (p, g)")
  have "h = (if 0 < T then next_gauss (m_rng I) (next_gauss (m_rng I) (next_gauss (m_rng I) g)) else g)"
    using t thermal_kick_rng [of "m_rng I" B sqrt_dt "drift_update I p" g]
    by (auto simp: translate_def split: if_splits)
  moreover have "snd (orient I C (q, h)) = next_gauss (m_rng I) h"
    by (simp add: orient_rng next_gauss_def)
  ultimately show ?thesis
    by (simp add: t eval_nat_numeral)
qed

lemma particle_loop_rng:
  "particle_loop I T B sqrt_dt ps (st, g) = Returned (st', g')
     \<Longrightarrow> g' = (next_gauss (m_rng I) ^^ ((if 0 < T then 4 else 1) * length ps)) g"
proof (induction ps arbitrary: st g)
  case Nil
  then show ?case by simp
next
  case (Cons pid rest)
  let ?c = "if 0 < T then 4 else 1 :: nat"
  from Cons.prems obtain C where C: "m_constrainer I = Some C"
    by (cases "m_constrainer I") (auto split: prod.splits)
  obtain p2 g2 where r: "orient I C (translate I T B sqrt_dt (st pid, g)) = (p2, g2)"
    by (cases "orient I C (translate I T B sqrt_dt (st pid, g))")
  with body_rng [of I C T B sqrt_dt "st pid" g] have g2: "g2 = (next_gauss (m_rng I) ^^ ?c) g"
    by simp
  from Cons.prems C r
  have "particle_loop I T B sqrt_dt rest (st(pid := p2), g2) = Returned (st', g')"
    by (simp split: prod.splits)
  from Cons.IH [OF this] have "g' = (next_gauss (m_rng I) ^^ (?c * length rest)) ((next_gauss (m_rng I) ^^ ?c) g)"
    unfolding g2 .
  also have "\<dots> = (next_gauss (m_rng I) ^^ (?c * length rest + ?c)) g"
    by (simp only: funpow_add o_apply)
  finally show ?case
    by (simp add: add.commute)
qed

text \<open>
  Claim C2. \<^verbatim>\<open>integrate()\<close> runs its loop with \<open>T = m_temp(step)\<close>,
  \<open>B = sqrt(2 * mu * T)\<close> and \<open>sqrt(dt)\<close>. With the constrainer set, the iteration for
  the particle \<open>pid\<close> takes the deterministic update \<open>q\<close> of the particle and, exactly
  when \<open>0 < T\<close>, draws three Gaussian samples \<open>n1\<close>, \<open>n2\<close>, \<open>n3\<close> one after the other,
  each from the state the previous draw left, adds \<open>B * n\<close> to the velocity component and
  \<open>sqrt(dt) * (B * n)\<close>, with the same sample, to the position component, and hands the
  state after the third draw to the orientation update; the loop goes on with the rest
  of the group from the state the orientation update leaves. Otherwise \<open>q\<close> goes to the
  orientation update with the generator untouched. A loop that completes has advanced
  the generator by four Gaussian draws per particle when \<open>0 < T\<close> (three translational,
  one rotational) and by one per particle otherwise.
\<close>

theorem thermal_kick_in_the_loop:
  "integrate_particles M S I (sys, g) =
     (let T = m_temp I (m_run_step sys)
      in particle_loop I T (fsqrt M (dec M 2 0 * m_mu I * T)) (fsqrt M (m_dt I)) (m_group sys)
           (prepare S I (m_group sys) (m_particles sys, g)))
   \<and> (m_constrainer I = Some C \<longrightarrow>
        particle_loop I T B sqrt_dt (pid # rest) (st, h) =
          (let q = drift_update I (st pid) in
           if 0 < T then
             (let (n1, h1) = gauss_rng (m_rng I) 1 h;
                  (n2, h2) = gauss_rng (m_rng I) 1 h1;
                  (n3, h3) = gauss_rng (m_rng I) 1 h2;
                  (p2, h4) = orient I C
                    (q\<lparr>vx := vx q + B * n1, vy := vy q + B * n2, vz := vz q + B * n3,
                       x := x q + sqrt_dt * (B * n1),
                       y := y q + sqrt_dt * (B * n2),
                       z := z q + sqrt_dt * (B * n3)\<rparr>, h3)
              in particle_loop I T B sqrt_dt rest (st(pid := p2), h4))
           else
             (let (p2, h4) = orient I C (q, h)
              in particle_loop I T B sqrt_dt rest (st(pid := p2), h4))))
   \<and> (\<forall>st' h'. particle_loop I T B sqrt_dt ps (st, h) = Returned (st', h') \<longrightarrow>
          h' = (next_gauss (m_rng I) ^^ ((if 0 < T then 4 else 1) * length ps)) h)"
proof (intro conjI impI allI)
  show "integrate_particles M S I (sys, g) =
     (let T = m_temp I (m_run_step sys)
      in particle_loop I T (fsqrt M (dec M 2 0 * m_mu I * T)) (fsqrt M (m_dt I)) (m_group sys)
           (prepare S I (m_group sys) (m_particles sys, g)))"
    by (simp add: integrate_particles_def noise_amplitude_def Let_def)
next
  assume "m_constrainer I = Some C"
  then show "particle_loop I T B sqrt_dt (pid # rest) (st, h) =
          (let q = drift_update I (st pid) in
           if 0 < T then
             (let (n1, h1) = gauss_rng (m_rng I) 1 h;
                  (n2, h2) = gauss_rng (m_rng I) 1 h1;
                  (n3, h3) = gauss_rng (m_rng I) 1 h2;
                  (p2, h4) = orient I C
                    (q\<lparr>vx := vx q + B * n1, vy := vy q + B * n2, vz := vz q + B * n3,
                       x := x q + sqrt_dt * (B * n1),
                       y := y q + sqrt_dt * (B * n2),
                       z := z q + sqrt_dt * (B * n3)\<rparr>, h3)
              in particle_loop I T B sqrt_dt rest (st(pid := p2), h4))
           else
             (let (p2, h4) = orient I C (q, h)
              in particle_loop I T B sqrt_dt rest (st(pid := p2), h4)))"
    by (simp add: translate_def thermal_kick_def Let_def split: prod.splits)
next
  fix st' h'
  assume "particle_loop I T B sqrt_dt ps (st, h) = Returned (st', h')"
  then show "h' = (next_gauss (m_rng I) ^^ ((if 0 < T then 4 else 1) * length ps)) h"
    by (rule particle_loop_rng)
qed

theorem thermal_kick_in_the_loop_witness:
  "particle_loop (example_integrator\<lparr>m_mu := 2\<rparr>) 1 2 1 [7] (\<lambda>pid. example_particle, 0)
     = Returned ((\<lambda>pid. example_particle)
         (7 := example_particle\<lparr>vx := 1 + 2 * 1, vy := 4 + 2 * 2, vz := 0 + 2 * 3,
                x := 1 + 1 * (2 * 1), y := 4 + 1 * (2 * 2), z := 0,
                omega := 2, nx := 1 + (1 * 2 + 1 * 4), age := 1\<rparr>), 4)
   \<and> (next_gauss example_rng ^^ (4 * length [7 :: int])) 0 = 4"
proof -
  let ?I = "example_integrator\<lparr>m_mu := 2\<rparr>"
  have c: "m_constrainer ?I = Some example_constrainer"
    by (simp add: example_integrator_def)
  note t = thermal_kick_in_the_loop
    [of example_math example_ops ?I example_system 0 example_constrainer 1 2 1 7 "[]"
      "\<lambda>pid. example_particle" 0 "[7]"]
  from t c have run: "particle_loop ?I 1 2 1 [7] (\<lambda>pid. example_particle, 0)
     = Returned ((\<lambda>pid. example_particle)
         (7 := example_particle\<lparr>vx := 1 + 2 * 1, vy := 4 + 2 * 2, vz := 0 + 2 * 3,
                x := 1 + 1 * (2 * 1), y := 4 + 1 * (2 * 2), z := 0,
                omega := 2, nx := 1 + (1 * 2 + 1 * 4), age := 1\<rparr>), 4)"
    by (simp add: orient_def drift_update_def example_integrator_def example_constrainer_def
        example_rng_def example_particle_def Let_def)
  with t have "(4::nat) = (next_gauss (m_rng ?I) ^^ ((if (0::real) < 1 then 4 else 1) * length [7 :: int])) 0"
    by blast
  then have "(next_gauss example_rng ^^ (4 * length [7 :: int])) 0 = 4"
    by (simp add: example_integrator_def)
  with run show ?thesis
    by (intro conjI)
qed

subsection \<open>The nematic flips in the call\<close>







end
